theory Spec2Isabelle
  imports Complex_Main "HOL-Library.Sublist"
begin

section \<open>The answer extraction engine of causeofwhy\<close>

text \<open>
  A shallow embedding of \<^verbatim>\<open>src/causeofwhy/answer_engine.py\<close>. The module
  \<^verbatim>\<open>indexer\<close>, NLTK's tagger and WordNet are not part of the file; every call
  into them is a field of the record \<open>env\<close> below, so that each theorem holds for
  every index, tagger and knowledge base.
\<close>

subsection \<open>Python values\<close>

text \<open>
  The exceptions the module can meet: \<open>ValueError\<close> is what unpacking a sequence of the
  wrong length into two names raises, \<open>TypeError\<close> is what iterating over \<open>None\<close>
  raises, \<open>WordNetError\<close> is what \<^verbatim>\<open>lch_similarity\<close> raises on senses it
  cannot compare.
\<close>

datatype py_error = ValueError | TypeError | WordNetError

text \<open>
  Keys of the dictionary literal in \<^verbatim>\<open>_analyze_query\<close>: the literal's keys are
  booleans, the key looked up is a string. In Python a string never equals a boolean.
\<close>

datatype py_key = PyBool bool | PyStr string

text \<open>\<^verbatim>\<open>s.startswith(p)\<close>\<close>

definition startswith :: "string \<Rightarrow> string \<Rightarrow> bool" where
  "startswith s p = (take (length p) s = p)"

text \<open>\<^verbatim>\<open>sep.join(xs)\<close>\<close>

fun join :: "string \<Rightarrow> string list \<Rightarrow> string" where
  "join sep [] = []"
| "join sep [x] = x"
| "join sep (x # y # ys) = x @ sep @ join sep (y # ys)"

text \<open>
  \<^verbatim>\<open>xs[start:stop]\<close> on a list, for integer bounds: a negative bound counts from
  the end, and every bound is clipped to \<open>0 .. len(xs)\<close>.
\<close>

definition adjust_index :: "nat \<Rightarrow> int \<Rightarrow> nat" where
  "adjust_index n i =
     (if i < 0 then (if i + int n < 0 then 0 else nat (i + int n))
      else (if int n \<le> i then n else nat i))"

definition py_slice :: "'a list \<Rightarrow> int \<Rightarrow> int \<Rightarrow> 'a list" where
  "py_slice xs i j =
     (let lo = adjust_index (length xs) i; hi = adjust_index (length xs) j
      in take (hi - lo) (drop lo xs))"

text \<open>
  \<^verbatim>\<open>page_ids, similarity = zip(*page_sim)\<close> for a list of pairs: \<^verbatim>\<open>zip(*[])\<close>
  is empty, so the unpacking into two names raises \<open>ValueError\<close>; for a non-empty list
  the transposition has exactly two rows, the first components and the second ones.
\<close>

definition unzip_pairs :: "('a \<times> 'b) list \<Rightarrow> py_error + ('a list \<times> 'b list)" where
  "unzip_pairs ps = (if ps = [] then Inl ValueError else Inr (map fst ps, map snd ps))"

subsection \<open>Pages, answers, the engine\<close>

text \<open>
  The attributes of \<^verbatim>\<open>indexer.Page\<close> the engine reads or writes: the identifier
  the index knows the page by, its content, the similarity score the constructor
  attaches, and the sentences (each a list of tokens) that
  \<^verbatim>\<open>tokenize_sentences()\<close> fills in.
\<close>

record page =
  ID :: nat
  content :: string
  cosine_sim :: "real option"
  sentences :: "string list list"

text \<open>\<^verbatim>\<open>class Answer\<close>: the page an answer comes from, and the sentence as one string.\<close>

record answer =
  answer_page :: page
  answer_text :: string

text \<open>
  Everything the module calls but does not define: \<^verbatim>\<open>indexer.tokenizer.tokenize\<close>,
  \<^verbatim>\<open>indexer.regularize\<close>, \<^verbatim>\<open>index.ranked\<close>, \<^verbatim>\<open>index.get_page\<close>,
  \<^verbatim>\<open>page.preprocess\<close>, \<^verbatim>\<open>page.tokenize_sentences\<close>, \<^verbatim>\<open>nltk.pos_tag\<close>,
  \<^verbatim>\<open>wordnet.synsets\<close> (with an optional part of speech), \<^verbatim>\<open>wordnet.synset\<close>
  and \<^verbatim>\<open>Synset.lch_similarity\<close>, which either returns a score or raises.
\<close>

record 'syn env =
  tokenize :: "string \<Rightarrow> string list"
  regularize :: "string list \<Rightarrow> string list"
  ranked :: "string list \<Rightarrow> (nat \<times> real) list"
  get_page :: "nat list \<Rightarrow> page list"
  preprocess :: "page \<Rightarrow> page"
  tokenize_sentences :: "page \<Rightarrow> page"
  pos_tag :: "string list \<Rightarrow> (string \<times> string) list"
  synsets :: "string \<Rightarrow> string option \<Rightarrow> 'syn list"
  synset :: "string \<Rightarrow> 'syn"
  lch_similarity :: "'syn \<Rightarrow> 'syn \<Rightarrow> py_error + real"

text \<open>The attributes of \<^verbatim>\<open>AnswerEngine\<close>; an attribute set to \<open>None\<close> is \<open>None\<close>.\<close>

record 'syn answer_engine =
  query :: string
  start :: int
  num_top :: int
  lch :: real
  answers :: "answer list option"
  ir_query :: "string list"
  ir_query_tagged :: "(string \<times> 'syn list) list option"
  num_pages :: nat
  pages :: "page list"

subsection \<open>The constructor\<close>

text \<open>
  \<^verbatim>\<open>for page, sim in zip(self.pages, similarity): page.cosine_sim = sim\<close>:
  the pages are updated in place while both lists last; pages beyond the scores stay as
  they are.
\<close>

fun set_cosine_sims :: "page list \<Rightarrow> real list \<Rightarrow> page list" where
  "set_cosine_sims (p # ps) (s # ss) = p\<lparr>cosine_sim := Some s\<rparr> # set_cosine_sims ps ss"
| "set_cosine_sims ps [] = ps"
| "set_cosine_sims [] ss = []"

text \<open>\<^verbatim>\<open>AnswerEngine.__init__(self, index, query, start, num_top, lch)\<close>\<close>

definition init :: "'syn env \<Rightarrow> string \<Rightarrow> int \<Rightarrow> int \<Rightarrow> real \<Rightarrow> py_error + 'syn answer_engine" where
  "init index q st nt l =
     (let irq = regularize index (tokenize index q);
          page_sim = ranked index irq;
          n = length page_sim;
          page_sim' = py_slice page_sim st nt
      in case unzip_pairs page_sim' of
           Inl e \<Rightarrow> Inl e
         | Inr (page_ids, similarity) \<Rightarrow>
             Inr \<lparr>query = q, start = st, num_top = nt, lch = l, answers = None,
                  ir_query = irq, ir_query_tagged = None, num_pages = n,
                  pages = set_cosine_sims (get_page index page_ids) similarity\<rparr>)"

subsection \<open>Query analysis\<close>

text \<open>The part-of-speech constants of \<^verbatim>\<open>nltk.corpus.wordnet\<close>.\<close>

definition NOUN :: string where "NOUN = ''n''"
definition VERB :: string where "VERB = ''v''"
definition ADJ :: string where "ADJ = ''a''"
definition ADV :: string where "ADV = ''r''"

text \<open>
  The dictionary literal of \<^verbatim>\<open>_analyze_query\<close>, built entry by entry in the order
  written (a later entry with an equal key replaces the value), for the tag \<open>pos\<close>.
\<close>

definition pos_dict :: "string \<Rightarrow> (py_key \<rightharpoonup> string)" where
  "pos_dict pos =
     Map.empty(PyBool (startswith pos ''N'') \<mapsto> NOUN,
               PyBool (startswith pos ''V'') \<mapsto> VERB,
               PyBool (startswith pos ''J'') \<mapsto> ADJ,
               PyBool (startswith pos ''R'') \<mapsto> ADV)"

text \<open>\<^verbatim>\<open>{...}.get(pos, None)\<close>: the key looked up is the tag itself, a string.\<close>

definition coarse_pos :: "string \<Rightarrow> string option" where
  "coarse_pos pos = pos_dict pos (PyStr pos)"

text \<open>\<^verbatim>\<open>if pos:\<close> for a value that is \<open>None\<close> or a string.\<close>

fun truthy :: "string option \<Rightarrow> bool" where
  "truthy None = False"
| "truthy (Some s) = (s \<noteq> [])"

text \<open>The loop \<^verbatim>\<open>for word, pos in tagged\<close>, appending to \<^verbatim>\<open>ir_query_tagged\<close>.\<close>

fun tag_loop :: "'syn env \<Rightarrow> (string \<times> string) list \<Rightarrow> (string \<times> 'syn list) list
    \<Rightarrow> (string \<times> 'syn list) list" where
  "tag_loop wn [] acc = acc"
| "tag_loop wn ((word, pos) # rest) acc =
     (let pos' = coarse_pos pos;
          syns = (if truthy pos' then synsets wn word pos' else synsets wn word None)
      in tag_loop wn rest (acc @ [(word, syns)]))"

text \<open>\<^verbatim>\<open>AnswerEngine._analyze_query(self)\<close>\<close>

definition analyze_query :: "'syn env \<Rightarrow> 'syn answer_engine \<Rightarrow> 'syn answer_engine" where
  "analyze_query wn self =
     (let tagged = pos_tag wn (ir_query self);
          ir_query_tagged' = tag_loop wn tagged [];
          ir_query_tagged'' = ir_query_tagged' @ [(''cause'', [synset wn ''cause.v.01''])]
      in self\<lparr>ir_query_tagged := Some ir_query_tagged''\<rparr>)"

subsection \<open>Page analysis\<close>

text \<open>\<^verbatim>\<open>AnswerEngine._analyze_pages(self)\<close>: each page is preprocessed, then segmented.\<close>

definition analyze_page :: "'syn env \<Rightarrow> page \<Rightarrow> page" where
  "analyze_page ix p = tokenize_sentences ix (preprocess ix p)"

definition analyze_pages :: "'syn env \<Rightarrow> 'syn answer_engine \<Rightarrow> 'syn answer_engine" where
  "analyze_pages ix self = self\<lparr>pages := map (analyze_page ix) (pages self)\<rparr>"

subsection \<open>Sentence matching\<close>

text \<open>
  The inner loop of \<^verbatim>\<open>related\<close>, \<^verbatim>\<open>for net2 in wordnet.synsets(word2)\<close>, for one
  sense \<open>net1\<close> of the query term. \<open>True\<close> is \<^verbatim>\<open>return True\<close>; \<open>False\<close> is
  the loop running out. An exception of \<^verbatim>\<open>lch_similarity\<close> is caught and the loop
  goes on (\<^verbatim>\<open>continue\<close>).
\<close>

fun related_net2 :: "'syn env \<Rightarrow> real \<Rightarrow> 'syn \<Rightarrow> 'syn list \<Rightarrow> bool" where
  "related_net2 wn thr net1 [] = False"
| "related_net2 wn thr net1 (net2 # rest) =
     (case lch_similarity wn net1 net2 of
        Inl e \<Rightarrow> related_net2 wn thr net1 rest
      | Inr l \<Rightarrow> (if l \<ge> thr then True else related_net2 wn thr net1 rest))"

text \<open>\<^verbatim>\<open>related(synsets, word2)\<close>: the outer loop \<^verbatim>\<open>for net1 in synsets\<close>.\<close>

fun related :: "'syn env \<Rightarrow> real \<Rightarrow> 'syn list \<Rightarrow> string \<Rightarrow> bool" where
  "related wn thr [] word2 = False"
| "related wn thr (net1 # rest) word2 =
     (if related_net2 wn thr net1 (synsets wn word2 None) then True
      else related wn thr rest word2)"

text \<open>
  The loop \<^verbatim>\<open>for page_term in indexer.regularize(sentence)\<close> for one query term:
  the value of \<^verbatim>\<open>match\<close> when the loop ends.
\<close>

fun term_match :: "'syn env \<Rightarrow> real \<Rightarrow> string \<Rightarrow> 'syn list \<Rightarrow> string list \<Rightarrow> bool" where
  "term_match wn thr term syns [] = False"
| "term_match wn thr term syns (page_term # rest) =
     (if term = page_term \<or> related wn thr syns page_term then True
      else term_match wn thr term syns rest)"

text \<open>The loop \<^verbatim>\<open>for term, synsets in self.ir_query_tagged\<close>.\<close>

fun terms_loop :: "'syn env \<Rightarrow> real \<Rightarrow> (string \<times> 'syn list) list \<Rightarrow> string list \<Rightarrow> bool" where
  "terms_loop wn thr [] sentence = True"
| "terms_loop wn thr ((term, syns) # rest) sentence =
     (if \<not> term_match wn thr term syns (regularize wn sentence) then False
      else terms_loop wn thr rest sentence)"

text \<open>
  \<^verbatim>\<open>sentence_matches(sentence)\<close>, a closure over \<open>self\<close>: iterating over
  \<^verbatim>\<open>self.ir_query_tagged\<close> raises \<open>TypeError\<close> while the attribute is \<open>None\<close>.
\<close>

definition sentence_matches :: "'syn env \<Rightarrow> 'syn answer_engine \<Rightarrow> string list \<Rightarrow> py_error + bool" where
  "sentence_matches wn self sentence =
     (case ir_query_tagged self of
        None \<Rightarrow> Inl TypeError
      | Some tagged \<Rightarrow> Inr (terms_loop wn (lch self) tagged sentence))"

subsection \<open>Answer extraction\<close>

text \<open>
  The loop \<^verbatim>\<open>for sentence in page.sentences\<close>, appending to \<^verbatim>\<open>page_windows\<close>.
\<close>

fun sentences_loop :: "'syn env \<Rightarrow> 'syn answer_engine \<Rightarrow> page \<Rightarrow> string list list
    \<Rightarrow> answer list \<Rightarrow> py_error + answer list" where
  "sentences_loop wn self pg [] page_windows = Inr page_windows"
| "sentences_loop wn self pg (sentence # rest) page_windows =
     (case sentence_matches wn self sentence of
        Inl e \<Rightarrow> Inl e
      | Inr b \<Rightarrow>
          sentences_loop wn self pg rest
            (if b then page_windows @ [\<lparr>answer_page = pg, answer_text = join '' '' sentence\<rparr>]
             else page_windows))"

text \<open>The loop \<^verbatim>\<open>for page in self.pages\<close>, extending \<^verbatim>\<open>answers\<close>.\<close>

fun pages_loop :: "'syn env \<Rightarrow> 'syn answer_engine \<Rightarrow> page list \<Rightarrow> answer list
    \<Rightarrow> py_error + answer list" where
  "pages_loop wn self [] answers' = Inr answers'"
| "pages_loop wn self (pg # rest) answers' =
     (case sentences_loop wn self pg (sentences pg) [] of
        Inl e \<Rightarrow> Inl e
      | Inr page_windows \<Rightarrow> pages_loop wn self rest (answers' @ page_windows))"

text \<open>\<^verbatim>\<open>AnswerEngine._extract_answers(self)\<close>\<close>

definition extract_answers :: "'syn env \<Rightarrow> 'syn answer_engine \<Rightarrow> py_error + 'syn answer_engine" where
  "extract_answers wn self =
     (case pages_loop wn self (pages self) [] of
        Inl e \<Rightarrow> Inl e
      | Inr answers' \<Rightarrow> Inr (self\<lparr>answers := Some answers'\<rparr>))"

text \<open>
  \<^verbatim>\<open>AnswerEngine.get_answers(self)\<close>: the engine after the call, and the value
  returned (\<^verbatim>\<open>self.answers\<close>). The module-level \<^verbatim>\<open>get_answers(ans_eng)\<close> is
  the same call.
\<close>

definition get_answers :: "'syn env \<Rightarrow> 'syn answer_engine
    \<Rightarrow> py_error + ('syn answer_engine \<times> answer list option)" where
  "get_answers wn self =
     (let self1 = analyze_query wn self;
          self2 = analyze_pages wn self1
      in case extract_answers wn self2 of
           Inl e \<Rightarrow> Inl e
         | Inr self3 \<Rightarrow> Inr (self3, answers self3))"

subsection \<open>An example world\<close>

text \<open>
  A small index, tagger and knowledge base on which the theorems below are run: \<open>n\<close>
  ranked pages with identifiers \<open>0 .. n - 1\<close> and scores \<open>n .. 1\<close>, a tagger
  that knows two words, and senses named as WordNet names them. The sense
  \<open>cause.v.01\<close> cannot be compared with the noun sense of \<open>dispute\<close> and
  scores \<open>3\<close> against its verb sense.
\<close>

definition example_stopwords :: "string list" where
  "example_stopwords = [''why'', ''did'', ''the'', ''over'', ''a'']"

definition example_sentences :: "nat \<Rightarrow> string list list" where
  "example_sentences i =
     (if i = 2 then [[''the'', ''war'', ''did'', ''start'', ''over'', ''a'', ''border'', ''dispute''],
                     [''the'', ''war'', ''did'', ''start''],
                     [''a'', ''dispute'', ''did'', ''start'', ''the'', ''war'']]
      else if i = 3 then [[''the'', ''dispute'', ''did'', ''start'', ''a'', ''war'']]
      else [])"

definition example_synsets :: "string \<Rightarrow> string option \<Rightarrow> string list" where
  "example_synsets w pos =
     (if w = ''war'' then
        (case pos of
           None \<Rightarrow> [''war.n.01'', ''war.v.01'']
         | Some p \<Rightarrow> if p = NOUN then [''war.n.01''] else if p = VERB then [''war.v.01''] else [])
      else if w = ''dispute'' then [''dispute.n.01'', ''dispute.v.01'']
      else [])"

definition example_lch :: "string \<Rightarrow> string \<Rightarrow> py_error + real" where
  "example_lch a b =
     (if a = ''cause.v.01'' \<and> b = ''dispute.n.01'' then Inl WordNetError
      else if a = ''cause.v.01'' \<and> b = ''dispute.v.01'' then Inr 3
      else Inr 1)"

definition example_env :: "nat \<Rightarrow> string env" where
  "example_env n =
     \<lparr>tokenize = (\<lambda>q. if q = ''why did the war start''
                        then [''why'', ''did'', ''the'', ''war'', ''start''] else []),
      regularize = filter (\<lambda>w. w \<notin> set example_stopwords),
      ranked = (\<lambda>toks. map (\<lambda>i. (i, real (n - i))) [0..<n]),
      get_page = map (\<lambda>i. \<lparr>ID = i, content = [], cosine_sim = None, sentences = []\<rparr>),
      preprocess = (\<lambda>p. p),
      tokenize_sentences = (\<lambda>p. p\<lparr>sentences := example_sentences (ID p)\<rparr>),
      pos_tag = map (\<lambda>w. (w, if w = ''war'' then ''NN'' else if w = ''start'' then ''VB'' else ''WRB'')),
      synsets = example_synsets,
      synset = (\<lambda>name. name),
      lch_similarity = example_lch\<rparr>"

text \<open>What is read off a constructed engine in the examples: the identifiers of its pages.\<close>

definition window_ids :: "py_error + 'syn answer_engine \<Rightarrow> py_error + nat list" where
  "window_ids r = (case r of Inl e \<Rightarrow> Inl e | Inr self \<Rightarrow> Inr (map ID (pages self)))"

text \<open>
  The engine the constructor builds in the example world for the query
  \<^verbatim>\<open>why did the war start\<close> with \<open>start = 2\<close>, \<open>num_top = 5\<close> and the
  default threshold (lemma \<open>example_engine_init\<close> below).
\<close>

definition example_engine :: "string answer_engine" where
  "example_engine =
     \<lparr>query = ''why did the war start'', start = 2, num_top = 5, lch = 2.16, answers = None,
      ir_query = [''war'', ''start''], ir_query_tagged = None, num_pages = 10,
      pages = [\<lparr>ID = 2, content = [], cosine_sim = Some 8, sentences = []\<rparr>,
               \<lparr>ID = 3, content = [], cosine_sim = Some 7, sentences = []\<rparr>,
               \<lparr>ID = 4, content = [], cosine_sim = Some 6, sentences = []\<rparr>]\<rparr>"

text \<open>What is read off a call of \<^verbatim>\<open>get_answers\<close>: page identifier and text of each answer.\<close>

definition returned_answers ::
    "py_error + ('syn answer_engine \<times> answer list option) \<Rightarrow> py_error + (nat \<times> string) list option" where
  "returned_answers r =
     (case r of
        Inl e \<Rightarrow> Inl e
      | Inr (self', found) \<Rightarrow>
          Inr (map_option (map (\<lambda>a. (ID (answer_page a), answer_text a))) found))"

text \<open>
  Two calls of \<^verbatim>\<open>get_answers\<close> in a row on one engine: what the second call returns.
  The second call finds the engine, and with it the pages, as the first call left them.
\<close>

definition get_answers_again :: "'syn env \<Rightarrow> 'syn answer_engine
    \<Rightarrow> py_error + ('syn answer_engine \<times> answer list option)" where
  "get_answers_again wn self =
     (case get_answers wn self of
        Inl e \<Rightarrow> Inl e
      | Inr (self1, found) \<Rightarrow> get_answers wn self1)"

text \<open>
  The example world with another segmentation step: \<^verbatim>\<open>tokenize_sentences()\<close> adds
  the sentence \<open>cause\<close> to the sentences the page already has. It is a function of the
  page, so it is deterministic. With it, the engine the constructor builds for the empty
  query with \<open>start = 2\<close> and \<open>num_top = 3\<close> (lemma \<open>one_page_engine_init\<close> below).
\<close>

definition appending_env :: "nat \<Rightarrow> string env" where
  "appending_env n =
     (example_env n)\<lparr>tokenize_sentences := (\<lambda>p. p\<lparr>sentences := sentences p @ [[''cause'']]\<rparr>)\<rparr>"

definition one_page_engine :: "string answer_engine" where
  "one_page_engine =
     \<lparr>query = [], start = 2, num_top = 3, lch = 2.16, answers = None,
      ir_query = [], ir_query_tagged = None, num_pages = 10,
      pages = [\<lparr>ID = 2, content = [], cosine_sim = Some 8, sentences = []\<rparr>]\<rparr>"

section \<open>Properties\<close>

subsection \<open>Slices\<close>

lemma adjust_index_nonneg: "0 \<le> i \<Longrightarrow> adjust_index n i = min (nat i) n"
  by (auto simp: adjust_index_def)

lemma adjust_index_le: "adjust_index n i \<le> n"
  by (auto simp: adjust_index_def)

lemma take_drop_nth: "hi \<le> length xs \<Longrightarrow> take (hi - lo) (drop lo xs) = map (nth xs) [lo..<hi]"
  by (rule nth_equalityI) auto

lemma py_slice_nth:
  "py_slice xs i j = map (nth xs) [adjust_index (length xs) i ..< adjust_index (length xs) j]"
  by (simp add: py_slice_def Let_def take_drop_nth adjust_index_le)

lemma py_slice_nonneg:
  assumes "0 \<le> i" "0 \<le> j"
  shows "py_slice xs i j = map (nth xs) [nat i ..< min (nat j) (length xs)]"
proof -
  have "[min (nat i) (length xs) ..< min (nat j) (length xs)] = [nat i ..< min (nat j) (length xs)]"
    by (cases "nat i \<le> length xs") (auto simp: min_def)
  then show ?thesis using assms by (simp add: py_slice_nth adjust_index_nonneg)
qed

lemma py_slice_empty_iff:
  assumes "0 \<le> i" "0 \<le> j"
  shows "py_slice xs i j = [] \<longleftrightarrow> min j (int (length xs)) \<le> i"
  using assms by (auto simp: py_slice_nonneg min_def)

lemma py_slice_length:
  assumes "0 \<le> i" "0 \<le> j"
  shows "length (py_slice xs i j) = min (nat j) (length xs) - nat i"
  using assms by (simp add: py_slice_nonneg)

subsection \<open>The constructor\<close>

lemma init_Inl_iff:
  "(\<exists>e. init ix q st nt l = Inl e) \<longleftrightarrow>
   py_slice (ranked ix (regularize ix (tokenize ix q))) st nt = []"
  by (auto simp: init_def Let_def unzip_pairs_def split: sum.splits)

lemma init_Inl_ValueError: "init ix q st nt l = Inl e \<Longrightarrow> e = ValueError"
  by (auto simp: init_def Let_def unzip_pairs_def split: sum.splits if_splits)

lemma init_Inr_fields:
  assumes "init ix q st nt l = Inr self"
  shows "ir_query self = regularize ix (tokenize ix q)"
    and "num_pages self = length (ranked ix (regularize ix (tokenize ix q)))"
    and "pages self =
           set_cosine_sims
             (get_page ix (map fst (py_slice (ranked ix (regularize ix (tokenize ix q))) st nt)))
             (map snd (py_slice (ranked ix (regularize ix (tokenize ix q))) st nt))"
    and "lch self = l" and "ir_query_tagged self = None" and "answers self = None"
  using assms by (auto simp: init_def Let_def unzip_pairs_def split: sum.splits if_splits)

lemma init_Inr_ex:
  assumes "py_slice (ranked ix (regularize ix (tokenize ix q))) st nt \<noteq> []"
  shows "\<exists>self. init ix q st nt l = Inr self"
  using assms by (auto simp: init_def Let_def unzip_pairs_def)

lemmas example_init_simps =
  init_def example_env_def py_slice_def adjust_index_def unzip_pairs_def
  example_stopwords_def window_ids_def Let_def upt_conv_Cons

lemma example_ranked_length: "length (ranked (example_env n) toks) = n"
  by (simp add: example_env_def)

lemma example_fields:
  "regularize (example_env n) ws = filter (\<lambda>w. w \<notin> set example_stopwords) ws"
  "synsets (example_env n) = example_synsets"
  "synset (example_env n) name = name"
  "lch_similarity (example_env n) = example_lch"
  "preprocess (example_env n) p = p"
  "tokenize_sentences (example_env n) p = p\<lparr>sentences := example_sentences (ID p)\<rparr>"
  "pos_tag (example_env n) ws =
     map (\<lambda>w. (w, if w = ''war'' then ''NN'' else if w = ''start'' then ''VB'' else ''WRB'')) ws"
  by (simp_all add: example_env_def)

lemmas example_wn_simps =
  example_fields example_stopwords_def example_synsets_def example_lch_def
  example_sentences_def example_engine_def

lemma example_engine_init:
  "init (example_env 10) ''why did the war start'' 2 5 2.16 = Inr example_engine"
  by (simp add: example_init_simps example_engine_def)

text \<open>
  Claim C2. The pages the constructor keeps are the pages fetched for the slice
  \<^verbatim>\<open>ranked[start:num_top]\<close> of the ranked list, each with the score of its rank;
  for non-negative bounds the slice holds exactly the entries at the indices from
  \<open>start\<close> up to, and not including, \<open>min num_top (number of ranked pages)\<close>.
  So \<open>num_top\<close> is an end index and not a width: with 10 ranked pages, \<open>start = 2\<close>
  and \<open>num_top = 5\<close> the window is the pages of ranks 2, 3 and 4.
\<close>

theorem init_window_is_slice:
  assumes "init ix q st nt l = Inr self"
  shows "pages self =
           set_cosine_sims
             (get_page ix (map fst (py_slice (ranked ix (ir_query self)) st nt)))
             (map snd (py_slice (ranked ix (ir_query self)) st nt))
         \<and> (0 \<le> st \<and> 0 \<le> nt \<longrightarrow>
              py_slice (ranked ix (ir_query self)) st nt =
                map (nth (ranked ix (ir_query self))) [nat st ..< min (nat nt) (num_pages self)])"
  using assms by (simp add: init_Inr_fields py_slice_nonneg)

theorem init_window_is_slice_witness:
  "window_ids (init (example_env 10) ''why did the war start'' 2 5 2.16) = Inr [2, 3, 4]
   \<and> py_slice (ranked (example_env 10) [''war'', ''start'']) 2 5 = [(2, 8), (3, 7), (4, 6)]"
proof -
  obtain self where s: "init (example_env 10) ''why did the war start'' 2 5 2.16 = Inr self"
    using init_Inr_ex [of "example_env 10" "''why did the war start''" 2 5 "2.16"]
    by (auto simp: example_init_simps)
  have q: "ir_query self = [''war'', ''start'']"
    using init_Inr_fields(1) [OF s] by (simp add: example_init_simps)
  have n: "num_pages self = 10"
    using init_Inr_fields(2) [OF s] by (simp add: example_ranked_length)
  from init_window_is_slice [OF s] q n
  have "pages self =
          set_cosine_sims
            (get_page (example_env 10) (map fst (py_slice (ranked (example_env 10) [''war'', ''start'']) 2 5)))
            (map snd (py_slice (ranked (example_env 10) [''war'', ''start'']) 2 5))"
    and "py_slice (ranked (example_env 10) [''war'', ''start'']) 2 5 =
           map (nth (ranked (example_env 10) [''war'', ''start''])) [2 ..< 5]"
    by simp_all
  then show ?thesis using s by (simp add: window_ids_def example_env_def)
qed

text \<open>
  Claim C10. The constructor fails exactly when the slice \<^verbatim>\<open>ranked[start:num_top]\<close>
  is empty, and the failure is the \<open>ValueError\<close> of the unpacking. For the documented
  parameters (numbers of pages, so non-negative) the slice is empty exactly when
  \<open>min num_top (number of ranked pages) \<le> start\<close>; in particular every
  \<open>start \<ge> num_top\<close> fails, whatever the number of ranked pages, while a window that
  starts inside the ranked list and before \<open>num_top\<close> succeeds, also when it is shorter
  than \<open>num_top - start\<close>.
\<close>

theorem init_fails_iff_window_empty:
  "((\<exists>e. init ix q st nt l = Inl e) \<longleftrightarrow>
      py_slice (ranked ix (regularize ix (tokenize ix q))) st nt = [])
   \<and> (0 \<le> st \<and> 0 \<le> nt \<longrightarrow>
        (init ix q st nt l = Inl ValueError \<longleftrightarrow>
           min nt (int (length (ranked ix (regularize ix (tokenize ix q))))) \<le> st))
   \<and> (0 \<le> nt \<and> nt \<le> st \<longrightarrow> init ix q st nt l = Inl ValueError)
   \<and> (0 \<le> st \<and> st < nt \<and> st < int (length (ranked ix (regularize ix (tokenize ix q)))) \<longrightarrow>
        (\<exists>self. init ix q st nt l = Inr self \<and>
           length (py_slice (ranked ix (ir_query self)) st nt) =
             min (nat nt) (num_pages self) - nat st))"
proof -
  let ?R = "ranked ix (regularize ix (tokenize ix q))"
  have fails: "init ix q st nt l = Inl ValueError \<longleftrightarrow> py_slice ?R st nt = []"
    using init_Inl_iff [of ix q st nt l] init_Inl_ValueError [of ix q st nt l] by blast
  have a: "(\<exists>e. init ix q st nt l = Inl e) \<longleftrightarrow> py_slice ?R st nt = []"
    by (rule init_Inl_iff)
  have b: "0 \<le> st \<and> 0 \<le> nt \<longrightarrow>
        (init ix q st nt l = Inl ValueError \<longleftrightarrow> min nt (int (length ?R)) \<le> st)"
    by (simp add: fails py_slice_empty_iff)
  have c: "0 \<le> nt \<and> nt \<le> st \<longrightarrow> init ix q st nt l = Inl ValueError"
    by (auto simp: fails py_slice_empty_iff min_le_iff_disj)
  have d: "0 \<le> st \<and> st < nt \<and> st < int (length ?R) \<longrightarrow>
        (\<exists>self. init ix q st nt l = Inr self \<and>
           length (py_slice (ranked ix (ir_query self)) st nt) =
             min (nat nt) (num_pages self) - nat st)"
  proof
    assume h: "0 \<le> st \<and> st < nt \<and> st < int (length ?R)"
    then have "py_slice ?R st nt \<noteq> []" by (auto simp: py_slice_empty_iff min_def)
    then obtain self where s: "init ix q st nt l = Inr self"
      using init_Inr_ex by blast
    have "length (py_slice (ranked ix (ir_query self)) st nt) =
            min (nat nt) (num_pages self) - nat st"
      using h by (simp add: init_Inr_fields [OF s] py_slice_length)
    with s show "\<exists>self. init ix q st nt l = Inr self \<and>
           length (py_slice (ranked ix (ir_query self)) st nt) =
             min (nat nt) (num_pages self) - nat st" by blast
  qed
  from a b c d show ?thesis by blast
qed

theorem init_fails_iff_window_empty_witness:
  "init (example_env 10) ''why did the war start'' 5 5 2.16 = Inl ValueError
   \<and> init (example_env 10) ''why did the war start'' 9 5 2.16 = Inl ValueError
   \<and> window_ids (init (example_env 10) ''why did the war start'' 8 20 2.16) = Inr [8, 9]"
proof -
  have a: "init (example_env 10) ''why did the war start'' 5 5 2.16 = Inl ValueError"
    using init_fails_iff_window_empty [of "example_env 10" "''why did the war start''" 5 5 "2.16"]
    by simp
  have b: "init (example_env 10) ''why did the war start'' 9 5 2.16 = Inl ValueError"
    using init_fails_iff_window_empty [of "example_env 10" "''why did the war start''" 9 5 "2.16"]
    by simp
  have "\<exists>self. init (example_env 10) ''why did the war start'' 8 20 2.16 = Inr self"
    using init_fails_iff_window_empty [of "example_env 10" "''why did the war start''" 8 20 "2.16"]
    by (auto simp: example_ranked_length)
  then have c: "window_ids (init (example_env 10) ''why did the war start'' 8 20 2.16) = Inr [8, 9]"
    by (simp add: example_init_simps Let_def upt_conv_Cons)
  from a b c show ?thesis by blast
qed

text \<open>
  Claim C6, as stated, fails: with three ranked pages, \<open>start = 0\<close> and
  \<open>num_top = 10\<close> the index returns fewer pages than the window asks for, and the
  constructor does not fail; it keeps the three pages.
\<close>

theorem short_ranking_counterexample:
  "length (ranked (example_env 3) (regularize (example_env 3) (tokenize (example_env 3) ''why did the war start''))) < 10
   \<and> init (example_env 3) ''why did the war start'' 0 10 2.16 \<noteq> Inl ValueError
   \<and> window_ids (init (example_env 3) ''why did the war start'' 0 10 2.16) = Inr [0, 1, 2]"
  by (simp add: example_init_simps Let_def upt_conv_Cons)

text \<open>
  Claim C6, amended. When the index returns fewer ranked pages than \<open>num_top\<close>, the
  constructor succeeds whenever \<open>start\<close> lies inside the ranked list, and keeps the
  shorter window \<^verbatim>\<open>ranked[start:]\<close>; it fails only when \<open>start\<close> lies at or beyond
  the end of the ranked list, and the error raised is the \<open>ValueError\<close> of the
  unpacking itself.
\<close>

theorem init_short_ranking:
  assumes "0 \<le> st" and "0 \<le> nt"
    and "int (length (ranked ix (regularize ix (tokenize ix q)))) < nt"
  shows "(st < int (length (ranked ix (regularize ix (tokenize ix q)))) \<longrightarrow>
           (\<exists>self. init ix q st nt l = Inr self \<and>
              pages self =
                set_cosine_sims
                  (get_page ix (map fst (drop (nat st) (ranked ix (ir_query self)))))
                  (map snd (drop (nat st) (ranked ix (ir_query self))))))
       \<and> (int (length (ranked ix (regularize ix (tokenize ix q)))) \<le> st \<longrightarrow>
            init ix q st nt l = Inl ValueError)"
proof -
  let ?R = "ranked ix (regularize ix (tokenize ix q))"
  have sl: "py_slice ?R st nt = drop (nat st) ?R"
    using assms by (auto simp: py_slice_def adjust_index_def)
  have a: "st < int (length ?R) \<longrightarrow>
           (\<exists>self. init ix q st nt l = Inr self \<and>
              pages self =
                set_cosine_sims
                  (get_page ix (map fst (drop (nat st) (ranked ix (ir_query self)))))
                  (map snd (drop (nat st) (ranked ix (ir_query self)))))"
  proof
    assume "st < int (length ?R)"
    then have "py_slice ?R st nt \<noteq> []" using assms by (simp add: sl)
    then obtain self where s: "init ix q st nt l = Inr self"
      using init_Inr_ex by blast
    have "pages self =
                set_cosine_sims
                  (get_page ix (map fst (drop (nat st) (ranked ix (ir_query self)))))
                  (map snd (drop (nat st) (ranked ix (ir_query self))))"
      by (simp add: init_Inr_fields [OF s] sl)
    with s show "\<exists>self. init ix q st nt l = Inr self \<and>
              pages self =
                set_cosine_sims
                  (get_page ix (map fst (drop (nat st) (ranked ix (ir_query self)))))
                  (map snd (drop (nat st) (ranked ix (ir_query self))))" by blast
  qed
  have b: "int (length ?R) \<le> st \<longrightarrow> init ix q st nt l = Inl ValueError"
  proof
    assume "int (length ?R) \<le> st"
    then have "py_slice ?R st nt = []" using assms by (simp add: sl)
    then obtain e where "init ix q st nt l = Inl e" using init_Inl_iff by blast
    then show "init ix q st nt l = Inl ValueError" using init_Inl_ValueError by blast
  qed
  from a b show ?thesis by blast
qed

theorem init_short_ranking_witness:
  "window_ids (init (example_env 3) ''why did the war start'' 1 10 2.16) = Inr [1, 2]
   \<and> init (example_env 3) ''why did the war start'' 3 10 2.16 = Inl ValueError"
proof -
  have h: "(0::int) \<le> 1" "(0::int) \<le> 3" "(0::int) \<le> 10"
    "int (length (ranked (example_env 3) (regularize (example_env 3) (tokenize (example_env 3) ''why did the war start'')))) < 10"
    by (simp_all add: example_ranked_length)
  have "\<exists>self. init (example_env 3) ''why did the war start'' 1 10 2.16 = Inr self"
    using init_short_ranking [OF h(1) h(3) h(4), of "2.16"] by (auto simp: example_ranked_length)
  then have a: "window_ids (init (example_env 3) ''why did the war start'' 1 10 2.16) = Inr [1, 2]"
    by (simp add: example_init_simps Let_def upt_conv_Cons)
  have b: "init (example_env 3) ''why did the war start'' 3 10 2.16 = Inl ValueError"
    using init_short_ranking [OF h(2) h(3) h(4), of "2.16"] by (auto simp: example_ranked_length)
  from a b show ?thesis by blast
qed

subsection \<open>Query analysis\<close>

text \<open>
  The lookup \<^verbatim>\<open>.get(pos, None)\<close> finds nothing, whatever the tag: the dictionary's
  keys are the booleans \<^verbatim>\<open>pos.startswith(...)\<close>, the key looked up is the tag.
\<close>

lemma coarse_pos_None: "coarse_pos pos = None"
  by (simp add: coarse_pos_def pos_dict_def)

lemma tag_loop_eq:
  "tag_loop wn tagged acc = acc @ map (\<lambda>(word, pos). (word, synsets wn word None)) tagged"
  by (induction tagged arbitrary: acc) (auto simp: coarse_pos_None)

lemma analyze_query_eq:
  "analyze_query wn self =
     self\<lparr>ir_query_tagged :=
            Some (map (\<lambda>(word, pos). (word, synsets wn word None)) (pos_tag wn (ir_query self))
                  @ [(''cause'', [synset wn ''cause.v.01''])])\<rparr>"
  by (simp add: analyze_query_def tag_loop_eq)

lemma example_tagged:
  "ir_query_tagged (analyze_query (example_env 10) example_engine) =
     Some [(''war'', [''war.n.01'', ''war.v.01'']), (''start'', []), (''cause'', [''cause.v.01''])]"
  by (simp add: analyze_query_eq example_wn_simps)

lemma example_lch_field: "lch (analyze_query (example_env 10) example_engine) = 2.16"
  by (simp add: analyze_query_eq example_engine_def)

text \<open>
  Claim C7. Whatever the query tokens, the tagged query that \<^verbatim>\<open>_analyze_query\<close>
  stores is one entry per pair the tagger returned, in order, followed by the entry
  \<open>(cause, [synset cause.v.01])\<close>: it is never empty and the causal term, with its one
  pinned sense, is last. For the empty token sequence (and a tagger that returns no pair
  for no token) the tagged query is that one entry alone.
\<close>

theorem tagged_query_ends_with_cause:
  "(\<exists>front. ir_query_tagged (analyze_query wn self) =
               Some (front @ [(''cause'', [synset wn ''cause.v.01''])])
            \<and> map fst front = map fst (pos_tag wn (ir_query self)))
   \<and> (ir_query self = [] \<and> pos_tag wn [] = [] \<longrightarrow>
        ir_query_tagged (analyze_query wn self) = Some [(''cause'', [synset wn ''cause.v.01''])])"
  by (auto simp: analyze_query_eq)

theorem tagged_query_ends_with_cause_witness:
  "ir_query_tagged (analyze_query (example_env 10) (example_engine\<lparr>ir_query := []\<rparr>)) =
     Some [(''cause'', [''cause.v.01''])]"
  using tagged_query_ends_with_cause [of "example_env 10" "example_engine\<lparr>ir_query := []\<rparr>"]
  by (simp add: example_env_def)

text \<open>
  Claim C3 does not hold of the code. The token \<open>war\<close> is tagged \<open>NN\<close>, a tag
  that starts with \<open>N\<close>, and the knowledge base has one noun sense of it; the
  tagged query nevertheless holds both senses, the noun and the verb one: the lookup of
  the coarse category finds nothing (\<open>coarse_pos_None\<close>), so the unfiltered
  \<^verbatim>\<open>wordnet.synsets(word)\<close> is called for every token.
\<close>

theorem noun_tag_senses_unfiltered:
  "pos_tag (example_env 10) [''war''] = [(''war'', ''NN'')]
   \<and> startswith ''NN'' ''N''
   \<and> synsets (example_env 10) ''war'' (Some NOUN) = [''war.n.01'']
   \<and> ir_query_tagged (analyze_query (example_env 10) (example_engine\<lparr>ir_query := [''war'']\<rparr>)) =
       Some [(''war'', [''war.n.01'', ''war.v.01'']), (''cause'', [''cause.v.01''])]"
  by (simp add: analyze_query_def coarse_pos_def pos_dict_def example_env_def example_synsets_def
      startswith_def NOUN_def)

subsection \<open>Sentence matching\<close>

lemma related_net2_iff:
  "related_net2 wn thr net1 ns \<longleftrightarrow>
     (\<exists>net2\<in>set ns. \<exists>v. lch_similarity wn net1 net2 = Inr v \<and> thr \<le> v)"
  by (induction ns) (auto split: sum.splits)

lemma related_net2_append:
  "related_net2 wn thr net1 (xs @ ys) \<longleftrightarrow>
     related_net2 wn thr net1 xs \<or> related_net2 wn thr net1 ys"
  by (auto simp: related_net2_iff)

lemma related_iff:
  "related wn thr syns word2 \<longleftrightarrow>
     (\<exists>net1\<in>set syns. \<exists>net2\<in>set (synsets wn word2 None).
        \<exists>v. lch_similarity wn net1 net2 = Inr v \<and> thr \<le> v)"
  by (induction syns) (auto simp: related_net2_iff)

lemma term_match_iff:
  "term_match wn thr term syns toks \<longleftrightarrow>
     (\<exists>tok\<in>set toks. term = tok \<or> related wn thr syns tok)"
  by (induction toks) auto

lemma terms_loop_iff:
  "terms_loop wn thr tagged sentence \<longleftrightarrow>
     (\<forall>(term, syns)\<in>set tagged. term_match wn thr term syns (regularize wn sentence))"
  by (induction tagged) (auto split: if_splits)

lemma sentence_matches_Some:
  "ir_query_tagged self = Some tagged \<Longrightarrow>
   sentence_matches wn self s = Inr (terms_loop wn (lch self) tagged s)"
  by (simp add: sentence_matches_def)

lemma sentence_matches_cong:
  "ir_query_tagged a = ir_query_tagged b \<Longrightarrow> lch a = lch b \<Longrightarrow>
   sentence_matches wn a = sentence_matches wn b"
  by (auto simp: sentence_matches_def fun_eq_iff split: option.splits)

lemma example_matches:
  "sentence_matches (example_env 10) (analyze_query (example_env 10) example_engine) s =
     Inr (terms_loop (example_env 10) 2.16
            [(''war'', [''war.n.01'', ''war.v.01'']), (''start'', []), (''cause'', [''cause.v.01''])] s)"
  by (simp add: sentence_matches_Some [OF example_tagged] example_lch_field)

text \<open>
  Claim C4. A pair of senses on which \<^verbatim>\<open>lch_similarity\<close> raises counts for nothing
  and stops nothing: the loop over the senses of the sentence token gives the same
  result as without that sense, so the pairs after it are still tried; \<^verbatim>\<open>related\<close>
  is true exactly when some pair returns a score at or above the threshold; and, once
  the query is tagged, \<^verbatim>\<open>sentence_matches\<close> returns a boolean for every knowledge
  base, however many of its comparisons raise.
\<close>

theorem failed_pair_not_related:
  "(lch_similarity wn net1 net2 = Inl e \<longrightarrow>
      related_net2 wn thr net1 (before @ net2 # rest) = related_net2 wn thr net1 (before @ rest))
   \<and> (related wn thr syns word2 \<longleftrightarrow>
        (\<exists>n1\<in>set syns. \<exists>n2\<in>set (synsets wn word2 None).
           \<exists>v. lch_similarity wn n1 n2 = Inr v \<and> thr \<le> v))
   \<and> (ir_query_tagged self \<noteq> None \<longrightarrow> (\<exists>b. sentence_matches wn self sentence = Inr b))"
  by (auto simp: related_net2_append related_iff sentence_matches_def)

theorem failed_pair_not_related_witness:
  "lch_similarity (example_env 10) ''cause.v.01'' ''dispute.n.01'' = Inl WordNetError
   \<and> related_net2 (example_env 10) 2.16 ''cause.v.01'' [''dispute.n.01'', ''dispute.v.01'']
   \<and> related (example_env 10) 2.16 [''cause.v.01''] ''dispute''"
proof -
  have f: "lch_similarity (example_env 10) ''cause.v.01'' ''dispute.n.01'' = Inl WordNetError"
    by (simp add: example_wn_simps)
  have "related_net2 (example_env 10) 2.16 ''cause.v.01'' ([] @ ''dispute.n.01'' # [''dispute.v.01''])
          = related_net2 (example_env 10) 2.16 ''cause.v.01'' ([] @ [''dispute.v.01''])"
    using failed_pair_not_related [of "example_env 10" "''cause.v.01''" "''dispute.n.01''" WordNetError
        "2.16" "[]" "[''dispute.v.01'']"] f by blast
  then have a: "related_net2 (example_env 10) 2.16 ''cause.v.01'' [''dispute.n.01'', ''dispute.v.01'']"
    by (simp add: example_wn_simps)
  have b: "related (example_env 10) 2.16 [''cause.v.01''] ''dispute''"
    using a by (simp add: example_wn_simps)
  from f a b show ?thesis by blast
qed

text \<open>
  Claim C5. A query term that is one of the regularized tokens of the sentence is
  matched in that sentence, for every threshold and whatever its senses are: the loop
  over the sentence's tokens ends with \<^verbatim>\<open>match\<close> true, and the loop over the
  terms goes on to the next term.
\<close>

theorem exact_token_satisfies_term:
  assumes "term \<in> set (regularize wn sentence)"
  shows "term_match wn thr term syns (regularize wn sentence)
         \<and> terms_loop wn thr ((term, syns) # rest) sentence = terms_loop wn thr rest sentence"
  using assms by (auto simp: term_match_iff)

theorem exact_token_satisfies_term_witness:
  "term_match (example_env 10) 1000000 ''war'' [''war.n.01'', ''war.v.01'']
     (regularize (example_env 10) [''the'', ''war'', ''did'', ''start''])
   \<and> terms_loop (example_env 10) 1000000 [(''war'', [''war.n.01'', ''war.v.01''])]
         [''the'', ''war'', ''did'', ''start'']"
proof -
  have "''war'' \<in> set (regularize (example_env 10) [''the'', ''war'', ''did'', ''start''])"
    by (simp add: example_wn_simps)
  from exact_token_satisfies_term [OF this, of 1000000 "[''war.n.01'', ''war.v.01'']" "[]"]
  show ?thesis by simp
qed

text \<open>
  Claim C1. For an engine whose query is tagged, \<^verbatim>\<open>sentence_matches\<close> returns true
  exactly when every term of the tagged query has a regularized token of the sentence
  that equals it or has a sense that some sense of the term scores at or above the
  threshold against; one term without such a token makes the result false, whatever the
  other terms do. After \<^verbatim>\<open>_analyze_query\<close> the causal term is one of the terms: a
  sentence that matches has a token that is \<open>cause\<close> or is related to the sense
  \<open>cause.v.01\<close>.
\<close>

theorem sentence_matches_iff:
  assumes "ir_query_tagged self = Some tagged"
  shows "sentence_matches wn self sentence =
           Inr (\<forall>(term, syns)\<in>set tagged.
                  \<exists>tok\<in>set (regularize wn sentence).
                    term = tok \<or>
                    (\<exists>net1\<in>set syns. \<exists>net2\<in>set (synsets wn tok None).
                       \<exists>v. lch_similarity wn net1 net2 = Inr v \<and> lch self \<le> v))
         \<and> (sentence_matches wn (analyze_query wn self) sentence = Inr True \<longrightarrow>
              (\<exists>tok\<in>set (regularize wn sentence).
                 ''cause'' = tok \<or>
                 (\<exists>net2\<in>set (synsets wn tok None).
                    \<exists>v. lch_similarity wn (synset wn ''cause.v.01'') net2 = Inr v \<and> lch self \<le> v)))"
proof -
  have a: "sentence_matches wn self sentence =
           Inr (\<forall>(term, syns)\<in>set tagged.
                  \<exists>tok\<in>set (regularize wn sentence).
                    term = tok \<or>
                    (\<exists>net1\<in>set syns. \<exists>net2\<in>set (synsets wn tok None).
                       \<exists>v. lch_similarity wn net1 net2 = Inr v \<and> lch self \<le> v))"
    using assms by (simp add: sentence_matches_def terms_loop_iff term_match_iff related_iff)
  have b: "\<exists>tok\<in>set (regularize wn sentence).
                 ''cause'' = tok \<or>
                 (\<exists>net2\<in>set (synsets wn tok None).
                    \<exists>v. lch_similarity wn (synset wn ''cause.v.01'') net2 = Inr v \<and> lch self \<le> v)"
    if "sentence_matches wn (analyze_query wn self) sentence = Inr True"
  proof -
    from that have "term_match wn (lch self) ''cause'' [synset wn ''cause.v.01'']
                      (regularize wn sentence)"
      by (simp add: sentence_matches_def analyze_query_eq terms_loop_iff)
    then show ?thesis by (simp add: term_match_iff related_iff)
  qed
  from a b show ?thesis by blast
qed

theorem sentence_matches_iff_witness:
  "sentence_matches (example_env 10) (analyze_query (example_env 10) example_engine)
     [''the'', ''war'', ''did'', ''start'', ''over'', ''a'', ''border'', ''dispute''] = Inr True
   \<and> sentence_matches (example_env 10) (analyze_query (example_env 10) example_engine)
     [''the'', ''war'', ''did'', ''start''] = Inr False"
proof -
  have a: "sentence_matches (example_env 10) (analyze_query (example_env 10) example_engine)
     [''the'', ''war'', ''did'', ''start'', ''over'', ''a'', ''border'', ''dispute''] = Inr True"
    unfolding sentence_matches_iff [OF example_tagged, THEN conjunct1] example_lch_field
    by (simp add: example_fields example_stopwords_def example_synsets_def example_lch_def)
  have b: "sentence_matches (example_env 10) (analyze_query (example_env 10) example_engine)
     [''the'', ''war'', ''did'', ''start''] = Inr False"
    unfolding sentence_matches_iff [OF example_tagged, THEN conjunct1] example_lch_field
    by (simp add: example_fields example_stopwords_def example_synsets_def example_lch_def)
  from a b show ?thesis by blast
qed

subsection \<open>Answer extraction\<close>

lemma sentences_loop_eq:
  assumes "ir_query_tagged self = Some tagged"
  shows "sentences_loop wn self pg ss acc =
           Inr (acc @ map (\<lambda>s. \<lparr>answer_page = pg, answer_text = join '' '' s\<rparr>)
                          (filter (\<lambda>s. sentence_matches wn self s = Inr True) ss))"
  using assms by (induction ss arbitrary: acc) (auto simp: sentence_matches_Some)

lemma pages_loop_eq:
  assumes "ir_query_tagged self = Some tagged"
  shows "pages_loop wn self ps acc =
           Inr (acc @ concat (map (\<lambda>pg. map (\<lambda>s. \<lparr>answer_page = pg, answer_text = join '' '' s\<rparr>)
                                       (filter (\<lambda>s. sentence_matches wn self s = Inr True) (sentences pg))) ps))"
  using assms by (induction ps arbitrary: acc) (auto simp: sentences_loop_eq)

lemma extract_answers_eq:
  assumes "ir_query_tagged self = Some tagged"
  shows "extract_answers wn self =
           Inr (self\<lparr>answers := Some (concat (map (\<lambda>pg. map (\<lambda>s. \<lparr>answer_page = pg, answer_text = join '' '' s\<rparr>)
                                       (filter (\<lambda>s. sentence_matches wn self s = Inr True) (sentences pg))) (pages self)))\<rparr>)"
  using assms by (simp add: extract_answers_def pages_loop_eq [where acc = "[]", simplified])

text \<open>
  \<^verbatim>\<open>get_answers\<close> never raises: it tags the query before it extracts.
\<close>

lemma get_answers_eq:
  "get_answers wn self =
     (let self2 = analyze_pages wn (analyze_query wn self);
          found = concat (map (\<lambda>pg. map (\<lambda>s. \<lparr>answer_page = pg, answer_text = join '' '' s\<rparr>)
                                (filter (\<lambda>s. sentence_matches wn self2 s = Inr True) (sentences pg)))
                              (pages self2))
      in Inr (self2\<lparr>answers := Some found\<rparr>, Some found))"
proof -
  have "ir_query_tagged (analyze_pages wn (analyze_query wn self)) =
          Some (map (\<lambda>(word, pos). (word, synsets wn word None)) (pos_tag wn (ir_query self))
                  @ [(''cause'', [synset wn ''cause.v.01''])])"
    by (simp add: analyze_pages_def analyze_query_eq)
  from extract_answers_eq [OF this] show ?thesis
    by (simp add: get_answers_def Let_def)
qed

lemma analyze_query_idem:
  "analyze_query wn (analyze_pages wn (analyze_query wn self)\<lparr>answers := a\<rparr>) =
     analyze_pages wn (analyze_query wn self)\<lparr>answers := a\<rparr>"
  by (simp add: analyze_query_eq analyze_pages_def)

text \<open>
  Claim C8. \<^verbatim>\<open>get_answers\<close> returns the answers page by page, in the order of the
  engine's page list (the order in which the index returned the pages of the window,
  which the constructor asked for in rank order), and within a page in the order of its
  sentences: the list is the concatenation, over the analyzed pages in order, of the
  page's matching sentences in order. So for a page \<open>A\<close> that stands before a page
  \<open>B\<close>, the answers of \<open>A\<close> form a block that lies wholly before the block of the
  answers of \<open>B\<close>.
\<close>

theorem answers_in_page_then_sentence_order:
  "\<exists>self'. get_answers wn self = Inr (self', answers self')
     \<and> pages self' = map (analyze_page wn) (pages self)
     \<and> sentence_matches wn self' = sentence_matches wn (analyze_query wn self)
     \<and> answers self' =
         Some (concat (map (\<lambda>pg. map (\<lambda>s. \<lparr>answer_page = pg, answer_text = join '' '' s\<rparr>)
                                   (filter (\<lambda>s. sentence_matches wn self' s = Inr True) (sentences pg)))
                           (pages self')))
     \<and> (\<forall>ps1 A ps2 B ps3. pages self' = ps1 @ A # ps2 @ B # ps3 \<longrightarrow>
          (\<exists>as1 as2 as3.
             answers self' =
               Some (as1 @ map (\<lambda>s. \<lparr>answer_page = A, answer_text = join '' '' s\<rparr>)
                               (filter (\<lambda>s. sentence_matches wn self' s = Inr True) (sentences A))
                     @ as2 @ map (\<lambda>s. \<lparr>answer_page = B, answer_text = join '' '' s\<rparr>)
                               (filter (\<lambda>s. sentence_matches wn self' s = Inr True) (sentences B))
                     @ as3)))"
proof -
  define self2 where "self2 = analyze_pages wn (analyze_query wn self)"
  define f where "f = (\<lambda>pg. map (\<lambda>s. \<lparr>answer_page = pg, answer_text = join '' '' s\<rparr>)
                                (filter (\<lambda>s. sentence_matches wn self2 s = Inr True) (sentences pg)))"
  define self' where "self' = self2\<lparr>answers := Some (concat (map f (pages self2)))\<rparr>"
  have sm: "sentence_matches wn self' = sentence_matches wn self2"
    by (rule sentence_matches_cong) (simp_all add: self'_def)
  have sq: "sentence_matches wn self' = sentence_matches wn (analyze_query wn self)"
    by (rule sentence_matches_cong) (simp_all add: self'_def self2_def analyze_pages_def)
  have ga: "get_answers wn self = Inr (self', answers self')"
    by (simp add: get_answers_eq Let_def self'_def self2_def f_def)
  have pg: "pages self' = map (analyze_page wn) (pages self)"
    by (simp add: self'_def self2_def analyze_pages_def analyze_query_eq)
  have an: "answers self' = Some (concat (map f (pages self')))"
    by (simp add: self'_def)
  have dec: "\<exists>as1 as2 as3. answers self' = Some (as1 @ f A @ as2 @ f B @ as3)"
    if "pages self' = ps1 @ A # ps2 @ B # ps3" for ps1 A ps2 B ps3
    using an that by auto
  show ?thesis
    using ga pg sq an dec unfolding f_def sm [symmetric] by blast
qed

theorem answers_in_page_then_sentence_order_witness:
  "returned_answers (get_answers (example_env 10) example_engine) =
     Inr (Some [(2, ''the war did start over a border dispute''),
                (2, ''a dispute did start the war''),
                (3, ''the dispute did start a war'')])"
proof -
  obtain self' where
    ga: "get_answers (example_env 10) example_engine = Inr (self', answers self')"
    and pg: "pages self' = map (analyze_page (example_env 10)) (pages example_engine)"
    and sm: "sentence_matches (example_env 10) self' =
               sentence_matches (example_env 10) (analyze_query (example_env 10) example_engine)"
    and an: "answers self' =
         Some (concat (map (\<lambda>pg. map (\<lambda>s. \<lparr>answer_page = pg, answer_text = join '' '' s\<rparr>)
                                   (filter (\<lambda>s. sentence_matches (example_env 10) self' s = Inr True) (sentences pg)))
                           (pages self')))"
    using answers_in_page_then_sentence_order [of "example_env 10" example_engine] by blast
  have "map_option (map (\<lambda>a. (ID (answer_page a), answer_text a))) (answers self') =
          Some [(2, ''the war did start over a border dispute''),
                (2, ''a dispute did start the war''),
                (3, ''the dispute did start a war'')]"
    unfolding an pg sm example_matches
    by (simp add: analyze_page_def example_wn_simps)
  then show ?thesis by (simp add: returned_answers_def ga)
qed

lemma one_page_engine_init: "init (appending_env 10) [] 2 3 2.16 = Inr one_page_engine"
  by (simp add: example_init_simps appending_env_def one_page_engine_def)

lemma appending_fields:
  "regularize (appending_env n) ws = filter (\<lambda>w. w \<notin> set example_stopwords) ws"
  "synsets (appending_env n) = example_synsets"
  "synset (appending_env n) name = name"
  "lch_similarity (appending_env n) = example_lch"
  "preprocess (appending_env n) p = p"
  "tokenize_sentences (appending_env n) p = p\<lparr>sentences := sentences p @ [[''cause'']]\<rparr>"
  "pos_tag (appending_env n) [] = []"
  by (simp_all add: appending_env_def example_env_def)

text \<open>
  Claim C9, as stated, fails. \<^verbatim>\<open>get_answers\<close> runs \<^verbatim>\<open>page.preprocess()\<close> and
  \<^verbatim>\<open>page.tokenize_sentences()\<close> on the engine's pages, in place, on every call, so
  the second call analyzes the pages the first call has already analyzed. With a
  deterministic segmentation step that adds a sentence to those the page has, and
  nothing touched between the calls, the first call returns one answer and the second
  call returns two.
\<close>

theorem appending_segmentation_counterexample:
  "returned_answers (get_answers (appending_env 10) one_page_engine) = Inr (Some [(2, ''cause'')])
   \<and> returned_answers (get_answers_again (appending_env 10) one_page_engine) =
       Inr (Some [(2, ''cause''), (2, ''cause'')])"
  by (simp add: get_answers_again_def get_answers_eq Let_def returned_answers_def
      analyze_query_eq analyze_pages_def analyze_page_def sentence_matches_def
      appending_fields example_stopwords_def one_page_engine_def)

text \<open>
  Claim C9, amended. When, besides, analyzing an analyzed page of the window again
  leaves it as it is (preprocessing and segmenting an already preprocessed and segmented
  page changes nothing), a second call of \<^verbatim>\<open>get_answers\<close> on the engine the first
  call left returns the same answer list, and leaves the engine as it found it. The
  tagger and the knowledge base are functions here, so they answer the same question the
  same way.
\<close>

theorem get_answers_twice:
  assumes "\<forall>p\<in>set (pages self). analyze_page wn (analyze_page wn p) = analyze_page wn p"
  shows "\<exists>self1 r. get_answers wn self = Inr (self1, r) \<and> get_answers wn self1 = Inr (self1, r)"
proof -
  define self2 where "self2 = analyze_pages wn (analyze_query wn self)"
  define found where "found = concat (map (\<lambda>pg. map (\<lambda>s. \<lparr>answer_page = pg, answer_text = join '' '' s\<rparr>)
                                (filter (\<lambda>s. sentence_matches wn self2 s = Inr True) (sentences pg)))
                              (pages self2))"
  define self1 where "self1 = self2\<lparr>answers := Some found\<rparr>"
  have first: "get_answers wn self = Inr (self1, Some found)"
    by (simp add: get_answers_eq Let_def self1_def self2_def found_def)
  have "map (analyze_page wn) (map (analyze_page wn) (pages self)) = map (analyze_page wn) (pages self)"
    using assms by simp
  then have pages2: "analyze_pages wn self1 = self1"
    by (simp add: analyze_pages_def self1_def self2_def analyze_query_eq)
  have "analyze_query wn self1 = self1"
    unfolding self1_def self2_def by (rule analyze_query_idem)
  with pages2 have again: "analyze_pages wn (analyze_query wn self1) = self1"
    by simp
  have sm: "sentence_matches wn self1 = sentence_matches wn self2"
    by (rule sentence_matches_cong) (simp_all add: self1_def)
  have pg: "pages self1 = pages self2" by (simp add: self1_def)
  have "get_answers wn self1 = Inr (self1, Some found)"
    by (simp add: get_answers_eq [of wn self1] again Let_def sm pg found_def [symmetric])
       (simp add: self1_def)
  with first show ?thesis by blast
qed

theorem get_answers_twice_witness:
  "\<exists>self1 r. get_answers (example_env 10) example_engine = Inr (self1, r)
      \<and> get_answers (example_env 10) self1 = Inr (self1, r)"
proof -
  have "\<forall>p\<in>set (pages example_engine).
          analyze_page (example_env 10) (analyze_page (example_env 10) p) =
            analyze_page (example_env 10) p"
    by (simp add: analyze_page_def example_fields example_engine_def)
  then show ?thesis by (rule get_answers_twice)
qed

end
